theory Spec2Isabelle
  imports Main
begin

section \<open>JavaScript values and strings\<close>

text \<open>
  The command line tool \<^verbatim>\<open>bin/jsonld.js\<close> handles a small set of JavaScript values:
  option values (strings, booleans, numbers, \<^verbatim>\<open>undefined\<close>), JSON documents returned by the
  library, and thrown errors. Strings are lists of code units below 256; numbers are the
  integers (no option or claim of the tool depends on a fractional number).
\<close>

datatype prim = Undefined | Null | Bool bool | Num int | Str string

datatype jsval = P prim | Arr "jsval list" | Obj "(string \<times> jsval) list"

text \<open>
  A thrown value is a primitive or an error object. An error object carries its
  \<^verbatim>\<open>stack\<close> property (if any), the text of \<^verbatim>\<open>toString()\<close>, its own enumerable
  properties other than \<^verbatim>\<open>cause\<close>, and its \<^verbatim>\<open>cause\<close> (\<open>Thrown Undefined\<close> when there is
  none). A cause chain is finite here: a cyclic chain is outside the model.
\<close>

datatype thrown =
    Thrown prim
  | ErrorObj "string option" string "(string \<times> jsval) list" thrown

fun typeof :: "jsval \<Rightarrow> string" where
  "typeof (P Undefined) = ''undefined''"
| "typeof (P Null) = ''object''"
| "typeof (P (Bool b)) = ''boolean''"
| "typeof (P (Num n)) = ''number''"
| "typeof (P (Str s)) = ''string''"
| "typeof (Arr xs) = ''object''"
| "typeof (Obj kvs) = ''object''"

fun truthy_prim :: "prim \<Rightarrow> bool" where
  "truthy_prim Undefined = False"
| "truthy_prim Null = False"
| "truthy_prim (Bool b) = b"
| "truthy_prim (Num n) = (n \<noteq> 0)"
| "truthy_prim (Str s) = (s \<noteq> [])"

text \<open>An option value that is a string or \<^verbatim>\<open>undefined\<close>: truthy when set and not empty.\<close>

fun truthy_str :: "string option \<Rightarrow> bool" where
  "truthy_str None = False"
| "truthy_str (Some s) = (s \<noteq> [])"

subsection \<open>Number to string\<close>

definition digit_char :: "nat \<Rightarrow> char" where
  "digit_char d = char_of (48 + d)"

fun show_nat :: "nat \<Rightarrow> string" where
  "show_nat n = (if n < 10 then [digit_char n] else show_nat (n div 10) @ [digit_char (n mod 10)])"

definition show_int :: "int \<Rightarrow> string" where
  "show_int i = (if i < 0 then CHR ''-'' # show_nat (nat (- i)) else show_nat (nat i))"

fun join :: "string \<Rightarrow> string list \<Rightarrow> string" where
  "join sep [] = []"
| "join sep [x] = x"
| "join sep (x # y # ys) = x @ sep @ join sep (y # ys)"

fun ToString_prim :: "prim \<Rightarrow> string" where
  "ToString_prim Undefined = ''undefined''"
| "ToString_prim Null = ''null''"
| "ToString_prim (Bool b) = (if b then ''true'' else ''false'')"
| "ToString_prim (Num n) = show_int n"
| "ToString_prim (Str s) = s"

text \<open>
  String conversion as used by \<^verbatim>\<open>'...' + value\<close>: an array joins its elements with commas
  (\<^verbatim>\<open>null\<close> and \<^verbatim>\<open>undefined\<close> elements give the empty string), a plain object gives
  \<^verbatim>\<open>[object Object]\<close>.
\<close>

fun ToString :: "jsval \<Rightarrow> string" where
  "ToString (P p) = ToString_prim p"
| "ToString (Arr xs) =
     join '','' (map (\<lambda>x. case x of P Undefined \<Rightarrow> [] | P Null \<Rightarrow> [] | _ \<Rightarrow> ToString x) xs)"
| "ToString (Obj kvs) = ''[object Object]''"

subsection \<open>String methods\<close>

text \<open>
  \<^verbatim>\<open>toLowerCase\<close> on code units below 256: the letters A-Z and the Latin-1 capitals
  (0xC0-0xDE without the multiplication sign 0xD7) move up by 32.
\<close>

definition lower_char :: "char \<Rightarrow> char" where
  "lower_char c =
     (let n = (of_char c :: nat) in
      if (65 \<le> n \<and> n \<le> 90) \<or> (192 \<le> n \<and> n \<le> 222 \<and> n \<noteq> 215)
      then char_of (n + 32) else c)"

definition toLowerCase :: "string \<Rightarrow> string" where
  "toLowerCase s = map lower_char s"

text \<open>
  \<^verbatim>\<open>trim\<close> removes white space and line terminators from both ends: TAB, LF, VT, FF, CR,
  SPACE and the no-break space 0xA0.
\<close>

definition is_space :: "char \<Rightarrow> bool" where
  "is_space c = ((of_char c :: nat) \<in> {9, 10, 11, 12, 13, 32, 160})"

definition trim :: "string \<Rightarrow> string" where
  "trim s = rev (dropWhile is_space (rev (dropWhile is_space s)))"

text \<open>\<^verbatim>\<open>s.split(',')\<close>: the pieces between the separators; the empty string gives one empty piece.\<close>

fun split :: "char \<Rightarrow> string \<Rightarrow> string list" where
  "split sep [] = [[]]"
| "split sep (c # cs) =
     (if c = sep then [] # split sep cs
      else (case split sep cs of [] \<Rightarrow> [[c]] | p # ps \<Rightarrow> (c # p) # ps))"

text \<open>\<^verbatim>\<open>url.indexOf(prefix) === 0\<close>\<close>

definition starts_with :: "string \<Rightarrow> string \<Rightarrow> bool" where
  "starts_with pre s = (take (length pre) s = pre)"

section \<open>Errors\<close>

text \<open>
  \<^verbatim>\<open>new Error(msg)\<close>: the string form is \<^verbatim>\<open>Error: msg\<close>, the stack is that line followed by
  the frames the engine recorded, there is no enumerable property and no cause.
\<close>

definition new_Error :: "string \<Rightarrow> string \<Rightarrow> thrown" where
  "new_Error frames msg =
     ErrorObj (Some (''Error: '' @ msg @ frames)) (''Error: '' @ msg) [] (Thrown Undefined)"

section \<open>boolify\<close>

text \<open>
  \<^verbatim>\<open>
  function boolify(value) {
    if(typeof value === 'boolean') { return value; }
    if(typeof value === 'string' && value) {
      switch(value.toLowerCase()) {
        case 'true': case 't': case '1': case 'yes': case 'y': return true;
        case 'false': case 'f': case '0': case 'no': case 'n': return false;
      }
    }
    throw new Error('Invalid boolean:' + value);
  }
  \<close>
\<close>

definition boolify_switch :: "string \<Rightarrow> bool option" where
  "boolify_switch l =
     (if l = ''true'' then Some True
      else if l = ''t'' then Some True
      else if l = ''1'' then Some True
      else if l = ''yes'' then Some True
      else if l = ''y'' then Some True
      else if l = ''false'' then Some False
      else if l = ''f'' then Some False
      else if l = ''0'' then Some False
      else if l = ''no'' then Some False
      else if l = ''n'' then Some False
      else None)"

definition boolify :: "string \<Rightarrow> jsval \<Rightarrow> thrown + bool" where
  "boolify frames v =
     (case v of
        P (Bool b) \<Rightarrow> Inr b
      | P (Str s) \<Rightarrow>
          (if s \<noteq> [] then
             (case boolify_switch (toLowerCase s) of
                Some b \<Rightarrow> Inr b
              | None \<Rightarrow> Inl (new_Error frames (''Invalid boolean:'' @ ToString v)))
           else Inl (new_Error frames (''Invalid boolean:'' @ ToString v)))
      | _ \<Rightarrow> Inl (new_Error frames (''Invalid boolean:'' @ ToString v)))"

section \<open>Options, requests and the environment\<close>

text \<open>
  The arguments of one invocation, named after the long options. A flag is \<open>True\<close> when
  it is given; an option with an argument is \<open>Some\<close> of the argument when given. The argument
  of \<^verbatim>\<open>--indent\<close> is held after the conversion by \<^verbatim>\<open>Number\<close>, as the integer that
  \<^verbatim>\<open>JSON.stringify\<close> makes of it (a fraction is cut off, and what is not a number counts as 0).
  Which of the command-specific
  options a subcommand accepts is decided by its declaration; the parser of the
  \<^verbatim>\<open>commander\<close> package rejects the others before the action runs.
\<close>

record argv =
  arg_indent :: "int option"
  arg_no_newline :: bool
  arg_insecure :: bool
  arg_allow :: "string option"
  arg_type :: "string option"
  arg_auto_base :: bool
  arg_base :: "string option"
  arg_lint :: bool
  arg_safe :: bool
  arg_context :: "string option"
  arg_format :: "string option"
  arg_n_quads :: bool
  arg_json :: bool
  arg_no_compact_arrays :: bool
  arg_graph :: bool
  arg_keep_free_floating_nodes :: bool
  arg_frame :: "string option"
  arg_embed :: "string option"
  arg_explicit :: "string option"
  arg_omit_default :: "string option"
  arg_generalized_rdf :: bool

text \<open>
  The options object an action receives as \<^verbatim>\<open>cmd\<close>. \<^verbatim>\<open>commander\<close> stores an option under
  the camel-cased long name (\<^verbatim>\<open>--auto-base\<close> as \<^verbatim>\<open>autoBase\<close>, \<^verbatim>\<open>--n-quads\<close> as \<^verbatim>\<open>nQuads\<close>), a
  negated option \<^verbatim>\<open>--no-x\<close> as \<^verbatim>\<open>x\<close> with default \<^verbatim>\<open>true\<close>. A boolean field is \<open>False\<close> where
  the property is \<^verbatim>\<open>undefined\<close>. \<open>cmd_sourceBase\<close> is the property \<^verbatim>\<open>sourceBase\<close> that
  \<^verbatim>\<open>_getBase\<close> reads.
\<close>

record command =
  cmd_indent :: int
  cmd_newline :: bool
  cmd_insecure :: bool
  cmd_allow :: "string option"
  cmd_type :: "string option"
  cmd_autoBase :: bool
  cmd_sourceBase :: bool
  cmd_base :: "string option"
  cmd_lint :: bool
  cmd_safe :: bool
  cmd_context :: "string option"
  cmd_format :: "string option"
  cmd_nQuads :: bool
  cmd_json :: bool
  cmd_compactArrays :: bool
  cmd_graph :: bool
  cmd_keepFreeFloatingNodes :: bool
  cmd_frame :: "string option"
  cmd_embed :: bool
  cmd_explicit :: bool
  cmd_omitDefault :: bool
  cmd_generalizedRdf :: bool

text \<open>The options passed to \<^verbatim>\<open>jsonldRequest\<close> of the \<^verbatim>\<open>jsonld-request\<close> package.\<close>

record request_options =
  req_agent :: bool
  req_dataType :: "string option"
  req_base :: "string option"
  req_allow :: "string list option"

record remote_document =
  contextUrl :: "string option"
  documentUrl :: string
  document :: jsval

text \<open>
  The options passed to the \<^verbatim>\<open>jsonld\<close> library. A field is \<open>None\<close> (or \<open>False\<close> for
  \<open>opt_eventHandler\<close> and \<open>opt_safe\<close>) where the property is not set; \<open>opt_base\<close> is \<open>None\<close>
  for \<^verbatim>\<open>null\<close>. The document loader takes the URL and the value of the module variable
  \<^verbatim>\<open>_primary\<close>, and returns its result with the new value of \<^verbatim>\<open>_primary\<close>.
\<close>

record jsonld_options =
  opt_allow :: "string list option"
  opt_access :: "string list option"
  opt_eventHandler :: bool
  opt_safe :: bool
  opt_base :: "string option"
  opt_documentLoader :: "string \<Rightarrow> bool \<Rightarrow> (thrown + remote_document) \<times> bool"
  opt_format :: "string option"
  opt_expandContext :: "string option"
  opt_compactArrays :: "bool option"
  opt_graph :: "bool option"
  opt_keepFreeFloatingNodes :: "bool option"
  opt_embed :: "bool option"
  opt_explicit :: "bool option"
  opt_omitDefault :: "bool option"
  opt_produceGeneralizedRdf :: "bool option"

record event =
  level :: string
  message :: string

text \<open>
  What the program calls and does not define: the engine's stack frames, \<^verbatim>\<open>util.inspect\<close>,
  \<^verbatim>\<open>process.cwd\<close>, \<^verbatim>\<open>path.resolve\<close>, the error \<^verbatim>\<open>process.stdout.write\<close> throws on a chunk
  that is not a string, the functions of the \<^verbatim>\<open>jsonld\<close> library (each returns the events it
  hands to an installed event handler, and its result or the error it rejects with) and
  \<^verbatim>\<open>jsonldRequest\<close> (the \<^verbatim>\<open>data\<close> of its result, or the error).
\<close>

record env =
  frames :: string
  inspect :: "(string \<times> jsval) list \<Rightarrow> string"
  inspect_event :: "event \<Rightarrow> string"
  cwd :: string
  path_resolve :: "string \<Rightarrow> string \<Rightarrow> string"
  write_TypeError :: "jsval \<Rightarrow> thrown"
  lib_jsonldRequest :: "string \<Rightarrow> request_options \<Rightarrow> thrown + jsval"
  jsonld_toRDF :: "string \<Rightarrow> jsonld_options \<Rightarrow> event list \<times> (thrown + jsval)"
  jsonld_expand :: "string \<Rightarrow> jsonld_options \<Rightarrow> event list \<times> (thrown + jsval)"
  jsonld_compact :: "string \<Rightarrow> string \<Rightarrow> jsonld_options \<Rightarrow> event list \<times> (thrown + jsval)"
  jsonld_flatten ::
    "string \<Rightarrow> string option \<Rightarrow> jsonld_options \<Rightarrow> event list \<times> (thrown + jsval)"
  jsonld_frame :: "string \<Rightarrow> string \<Rightarrow> jsonld_options \<Rightarrow> event list \<times> (thrown + jsval)"
  jsonld_canonize :: "string \<Rightarrow> jsonld_options \<Rightarrow> event list \<times> (thrown + jsval)"

subsection \<open>The common options\<close>

text \<open>
  \<^verbatim>\<open>
  function _jsonLdCommand(command) {
    command
      .option('-i, --indent <spaces>', 'spaces to indent [2]', Number, 2)
      .option('-N, --no-newline', 'do not output the trailing newline [newline]')
      .option('-k, --insecure', 'allow insecure connections [false]')
      .option('-a, --allow <list>', '...')
      .option('-t, --type <type>', 'input data type [auto]')
      .option('-B, --auto-base', 'use base IRI from source [false]')
      .option('-b, --base <base>', 'base IRI [null]')
      .option('-l, --lint', 'show lint warnings [false]')
      .option('-s, --safe', 'enable safe mode [false]');
    return command;
  }
  \<close>
  together with the options each subcommand declares. The three framing flags are parsed
  by \<^verbatim>\<open>boolify\<close> (defaults true, false, false); an error it throws ends the parse (when
  several values are rejected, the error of the first in the order embed, explicit,
  omit-default is the one modelled; \<^verbatim>\<open>commander\<close> throws the first on the command line).
  No declaration stores anything under \<^verbatim>\<open>sourceBase\<close>.
\<close>

definition boolify_option :: "string \<Rightarrow> string option \<Rightarrow> bool \<Rightarrow> thrown + bool" where
  "boolify_option fr arg dflt =
     (case arg of None \<Rightarrow> Inr dflt | Some s \<Rightarrow> boolify fr (P (Str s)))"

definition jsonLdCommand :: "string \<Rightarrow> argv \<Rightarrow> thrown + command" where
  "jsonLdCommand fr a =
     (case boolify_option fr (arg_embed a) True of
        Inl e \<Rightarrow> Inl e
      | Inr b_embed \<Rightarrow>
     (case boolify_option fr (arg_explicit a) False of
        Inl e \<Rightarrow> Inl e
      | Inr b_explicit \<Rightarrow>
     (case boolify_option fr (arg_omit_default a) False of
        Inl e \<Rightarrow> Inl e
      | Inr b_omitDefault \<Rightarrow>
        Inr \<lparr> cmd_indent = (case arg_indent a of None \<Rightarrow> 2 | Some n \<Rightarrow> n),
              cmd_newline = (\<not> arg_no_newline a),
              cmd_insecure = arg_insecure a,
              cmd_allow = arg_allow a,
              cmd_type = arg_type a,
              cmd_autoBase = arg_auto_base a,
              cmd_sourceBase = False,
              cmd_base = arg_base a,
              cmd_lint = arg_lint a,
              cmd_safe = arg_safe a,
              cmd_context = arg_context a,
              cmd_format = arg_format a,
              cmd_nQuads = arg_n_quads a,
              cmd_json = arg_json a,
              cmd_compactArrays = (\<not> arg_no_compact_arrays a),
              cmd_graph = arg_graph a,
              cmd_keepFreeFloatingNodes = arg_keep_free_floating_nodes a,
              cmd_frame = arg_frame a,
              cmd_embed = b_embed,
              cmd_explicit = b_explicit,
              cmd_omitDefault = b_omitDefault,
              cmd_generalizedRdf = arg_generalized_rdf a \<rparr>)))"

subsection \<open>Base IRI\<close>

definition ALLOW_ALL :: "string list" where
  "ALLOW_ALL = [''stdin'', ''file'', ''http'', ''https'']"

definition ALLOW_DEFAULT :: "string list" where
  "ALLOW_DEFAULT = [''http'', ''https'']"

definition ALLOW_NONE :: "string list" where
  "ALLOW_NONE = []"

text \<open>
  \<^verbatim>\<open>
  function _isHTTP(url) {
    return (url.indexOf('http://') === 0 || url.indexOf('https://') === 0);
  }
  function _getSourceBase(command, input) {
    if(input === '-') { return 'stdin://'; }
    if(_isHTTP(input)) { return input; }
    return 'file://' + path.resolve(process.cwd(), input);
  }
  function _getBase(command, input) {
    if(command.base) { return command.base; }
    if(command.sourceBase) { return _getSourceBase(command, input); }
    return null;
  }
  \<close>
\<close>

definition isHTTP :: "string \<Rightarrow> bool" where
  "isHTTP url = (starts_with ''http://'' url \<or> starts_with ''https://'' url)"

definition getSourceBase :: "env \<Rightarrow> command \<Rightarrow> string \<Rightarrow> string" where
  "getSourceBase ev command input =
     (if input = ''-'' then ''stdin://''
      else if isHTTP input then input
      else ''file://'' @ path_resolve ev (cwd ev) input)"

definition getBase :: "env \<Rightarrow> command \<Rightarrow> string \<Rightarrow> string option" where
  "getBase ev command input =
     (if truthy_str (cmd_base command) then cmd_base command
      else if cmd_sourceBase command then Some (getSourceBase ev command input)
      else None)"

subsection \<open>Request options and the request wrapper\<close>

text \<open>
  \<^verbatim>\<open>
  function _requestOptions(command, input) {
    const options = {};
    if(command.insecure) { options.agent = new https.Agent({rejectUnauthorized: false}); }
    if(command.type) { options.dataType = command.type; }
    options.base = _getBase(command, input);
    return options;
  }
  \<close>
\<close>

definition requestOptions :: "env \<Rightarrow> command \<Rightarrow> string \<Rightarrow> request_options" where
  "requestOptions ev command input =
     \<lparr> req_agent = cmd_insecure command,
       req_dataType = (if truthy_str (cmd_type command) then cmd_type command else None),
       req_base = getBase ev command input,
       req_allow = None \<rparr>"

text \<open>
  \<^verbatim>\<open>
  let _primary = true;
  async function _jsonldRequest(url, reqOptions, options) {
    const _options = {...reqOptions};
    if(_primary) { _options.allow = ALLOW_ALL; } else { _options.allow = options.allow; }
    _primary = false;
    return jsonldRequest(url, _options);
  }
  \<close>
  \<open>issue\<close> is the part before the call of the library: the options the request is issued
  with and the new value of \<^verbatim>\<open>_primary\<close>. \<open>jsonldRequest_wrapper\<close> is \<^verbatim>\<open>_jsonldRequest\<close>.
\<close>

definition issue :: "request_options \<Rightarrow> string list option \<Rightarrow> bool \<Rightarrow> request_options \<times> bool" where
  "issue reqOptions allow primary =
     (reqOptions\<lparr>req_allow := (if primary then Some ALLOW_ALL else allow)\<rparr>, False)"

definition jsonldRequest_wrapper ::
  "env \<Rightarrow> string \<Rightarrow> request_options \<Rightarrow> string list option \<Rightarrow> bool \<Rightarrow> (thrown + jsval) \<times> bool" where
  "jsonldRequest_wrapper ev url reqOptions allow primary =
     (let (opts, primary') = issue reqOptions allow primary
      in (lib_jsonldRequest ev url opts, primary'))"

text \<open>
  The requests issued by a sequence of calls of the wrapper, in order, starting from a
  value of \<^verbatim>\<open>_primary\<close>, and the value of \<^verbatim>\<open>_primary\<close> after them.
\<close>

fun issued ::
  "string list option \<Rightarrow> (string \<times> request_options) list \<Rightarrow> bool
     \<Rightarrow> (string \<times> request_options) list \<times> bool" where
  "issued allow [] primary = ([], primary)"
| "issued allow ((url, reqOptions) # calls) primary =
     (let (opts, primary') = issue reqOptions allow primary;
          (rest, final) = issued allow calls primary'
      in ((url, opts) # rest, final))"

subsection \<open>Library options\<close>

text \<open>
  \<^verbatim>\<open>
  function _jsonLdOptions(command, input) {
    const options = {};
    if(command.allow) {
      options.allow = command.allow.split(',');
      if(options.allow.includes('all')) { options.allow = ALLOW_ALL; }
      else if(options.allow.includes('none')) { options.allow = ALLOW_NONE; }
    } else {
      // default to only load secondary HTTP/HTTPS resources
      options.access = ALLOW_DEFAULT;
    }
    if(command.lint) { options.eventHandler = _warningHandler; }
    if(command.safe) { options.safe = true; }
    options.base = _getBase(command, input);
    options.documentLoader = async function documentLoader(url) {
      const reqOpts = _requestOptions(command, url);
      const reqResult = await _jsonldRequest(url, reqOpts, options);
      return {contextUrl: null, documentUrl: url, document: reqResult.data || null};
    };
    return options;
  }
  \<close>
  The loader reads \<^verbatim>\<open>options.allow\<close> when it is called; no action changes that property
  after \<^verbatim>\<open>_jsonLdOptions\<close> has returned, so the loader is built from its value.
\<close>

fun truthy :: "jsval \<Rightarrow> bool" where
  "truthy (P p) = truthy_prim p"
| "truthy (Arr xs) = True"
| "truthy (Obj kvs) = True"

definition documentLoader ::
  "env \<Rightarrow> command \<Rightarrow> string list option \<Rightarrow> string \<Rightarrow> bool \<Rightarrow> (thrown + remote_document) \<times> bool" where
  "documentLoader ev command allow url primary =
     (let reqOpts = requestOptions ev command url;
          (reqResult, primary') = jsonldRequest_wrapper ev url reqOpts allow primary
      in (case reqResult of
            Inl e \<Rightarrow> (Inl e, primary')
          | Inr data \<Rightarrow>
              (Inr \<lparr> contextUrl = None, documentUrl = url,
                     document = (if truthy data then data else P Null) \<rparr>, primary')))"

text \<open>\<open>allow_of\<close> is the value of \<^verbatim>\<open>options.allow\<close> that \<^verbatim>\<open>_jsonLdOptions\<close> leaves.\<close>

definition allow_of :: "command \<Rightarrow> string list option" where
  "allow_of command =
     (case cmd_allow command of
        None \<Rightarrow> None
      | Some v \<Rightarrow>
          (if v \<noteq> [] then
             (let tokens = split CHR '','' v in
              if ''all'' \<in> set tokens then Some ALLOW_ALL
              else if ''none'' \<in> set tokens then Some ALLOW_NONE
              else Some tokens)
           else None))"

definition jsonLdOptions :: "env \<Rightarrow> command \<Rightarrow> string \<Rightarrow> jsonld_options" where
  "jsonLdOptions ev command input =
     \<lparr> opt_allow = allow_of command,
       opt_access = (if truthy_str (cmd_allow command) then None else Some ALLOW_DEFAULT),
       opt_eventHandler = cmd_lint command,
       opt_safe = cmd_safe command,
       opt_base = getBase ev command input,
       opt_documentLoader = documentLoader ev command (allow_of command),
       opt_format = None,
       opt_expandContext = None,
       opt_compactArrays = None,
       opt_graph = None,
       opt_keepFreeFloatingNodes = None,
       opt_embed = None,
       opt_explicit = None,
       opt_omitDefault = None,
       opt_produceGeneralizedRdf = None \<rparr>"

section \<open>Output\<close>

subsection \<open>JSON.stringify\<close>

text \<open>
  \<^verbatim>\<open>JSON.stringify(data, null, space)\<close> as ECMA-262 defines it. A number \<^verbatim>\<open>space\<close> gives a gap
  of \<^verbatim>\<open>min(10, space)\<close> spaces, and the empty gap below 1. With the empty gap nothing is
  put between the tokens; otherwise every member is on a line of its own, indented by the
  gap once per level of nesting. An \<^verbatim>\<open>undefined\<close> member of an object is left out, an
  \<^verbatim>\<open>undefined\<close> element of an array is written \<^verbatim>\<open>null\<close>. The keys of an object are held in
  the order of enumeration.
\<close>

definition LF :: string where
  "LF = [CHR 0x0A]"

definition hex_char :: "nat \<Rightarrow> char" where
  "hex_char d = (if d < 10 then char_of (48 + d) else char_of (87 + d))"

definition quote_char :: "char \<Rightarrow> string" where
  "quote_char c =
     (let n = (of_char c :: nat) in
      if n = 8 then [CHR 0x5C, CHR ''b'']
      else if n = 9 then [CHR 0x5C, CHR ''t'']
      else if n = 10 then [CHR 0x5C, CHR ''n'']
      else if n = 12 then [CHR 0x5C, CHR ''f'']
      else if n = 13 then [CHR 0x5C, CHR ''r'']
      else if n = 34 then [CHR 0x5C, CHR 0x22]
      else if n = 92 then [CHR 0x5C, CHR 0x5C]
      else if n < 32 then [CHR 0x5C, CHR ''u'', CHR ''0'', CHR ''0'', hex_char (n div 16), hex_char (n mod 16)]
      else [c])"

definition QuoteJSONString :: "string \<Rightarrow> string" where
  "QuoteJSONString s = [CHR 0x22] @ concat (map quote_char s) @ [CHR 0x22]"

definition wrap :: "string \<Rightarrow> string \<Rightarrow> string \<Rightarrow> string \<Rightarrow> string \<Rightarrow> string list \<Rightarrow> string" where
  "wrap opn cls gap stepback ind partial =
     (if partial = [] then opn @ cls
      else if gap = [] then opn @ join '','' partial @ cls
      else opn @ LF @ ind @ join ('','' @ LF @ ind) partial @ LF @ stepback @ cls)"

fun SerializeJSONProperty :: "string \<Rightarrow> string \<Rightarrow> jsval \<Rightarrow> string option" where
  "SerializeJSONProperty gap ind (P Undefined) = None"
| "SerializeJSONProperty gap ind (P Null) = Some ''null''"
| "SerializeJSONProperty gap ind (P (Bool b)) = Some (if b then ''true'' else ''false'')"
| "SerializeJSONProperty gap ind (P (Num n)) = Some (show_int n)"
| "SerializeJSONProperty gap ind (P (Str s)) = Some (QuoteJSONString s)"
| "SerializeJSONProperty gap ind (Arr xs) =
     Some (wrap ''['' '']'' gap ind (ind @ gap)
       (map (\<lambda>x. case SerializeJSONProperty gap (ind @ gap) x of
                    None \<Rightarrow> ''null'' | Some t \<Rightarrow> t) xs))"
| "SerializeJSONProperty gap ind (Obj kvs) =
     Some (wrap ''{'' ''}'' gap ind (ind @ gap)
       (concat (map (\<lambda>kv. case SerializeJSONProperty gap (ind @ gap) (snd kv) of
                    None \<Rightarrow> []
                  | Some t \<Rightarrow>
                      [QuoteJSONString (fst kv) @ '':'' @ (if gap \<noteq> [] then '' '' else []) @ t])
          kvs)))"

definition gap_of :: "int \<Rightarrow> string" where
  "gap_of space = (if 1 \<le> min 10 space then replicate (nat (min 10 space)) CHR '' '' else [])"

definition JSON_stringify :: "jsval \<Rightarrow> int \<Rightarrow> string option" where
  "JSON_stringify data space = SerializeJSONProperty (gap_of space) [] data"

subsection \<open>The common output function\<close>

text \<open>
  \<^verbatim>\<open>
  async function _output(data, cmd) {
    if(typeof data === 'object') {
      const output = JSON.stringify(data, null, cmd.indent);
      process.stdout.write(output);
    } else if(typeof data === 'string') {
      process.stdout.write(data.trim());
    } else {
      process.stdout.write(data);
    }
    if(cmd.newline) { process.stdout.write('\n'); }
  }
  \<close>
  \<open>output_data\<close> is \<^verbatim>\<open>_output\<close>: the text written to standard output, or the error thrown.
  \<^verbatim>\<open>process.stdout.write\<close> throws on a chunk that is not a string, before anything is written.
\<close>

definition stdout_write :: "env \<Rightarrow> jsval \<Rightarrow> thrown + string" where
  "stdout_write ev chunk = (case chunk of P (Str s) \<Rightarrow> Inr s | _ \<Rightarrow> Inl (write_TypeError ev chunk))"

definition output_data :: "env \<Rightarrow> jsval \<Rightarrow> command \<Rightarrow> thrown + string" where
  "output_data ev data cmd =
     (case (if typeof data = ''object'' then
              stdout_write ev (case JSON_stringify data (cmd_indent cmd) of
                                 None \<Rightarrow> P Undefined | Some t \<Rightarrow> P (Str t))
            else if typeof data = ''string'' then
              stdout_write ev (P (Str (trim (ToString data))))
            else stdout_write ev data) of
        Inl e \<Rightarrow> Inl e
      | Inr written \<Rightarrow> Inr (written @ (if cmd_newline cmd then LF else [])))"

text \<open>
  \<^verbatim>\<open>
  function _warningHandler({event, next}) {
    if(event.level === 'warning') {
      console.log(`WARNING: ${event.message}`);
      console.log(inspect(event, {colors: true, depth: 10}));
    }
    next();
  }
  \<close>
  The text the handler logs for the events of one library call.
\<close>

definition warningHandler :: "env \<Rightarrow> event \<Rightarrow> string" where
  "warningHandler ev e =
     (if level e = ''warning''
      then ''WARNING: '' @ message e @ LF @ inspect_event ev e @ LF
      else [])"

section \<open>The error handler and the process\<close>

text \<open>
  \<^verbatim>\<open>
  function _error(err, msg = 'Error:') {
    if(err) {
      if(err.stack) { console.log(err.stack); } else { console.log(err.toString()); }
      if(typeof err === 'object') {
        const {cause, ...options} = err;
        if(Object.keys(options).length !== 0) {
          console.log(msg, inspect(options, {colors: true, depth: 10}));
        }
        if(cause) { _error(cause, 'Error Cause:'); }
      }
      process.exit(1);
    }
  }
  \<close>
  The result is the text logged to standard output and the exit code, if the process
  exited. The call on the cause exits the process itself when the cause is truthy.
\<close>

fun truthy_thrown :: "thrown \<Rightarrow> bool" where
  "truthy_thrown (Thrown p) = truthy_prim p"
| "truthy_thrown (ErrorObj stack str props cause) = True"

fun error :: "env \<Rightarrow> thrown \<Rightarrow> string \<Rightarrow> string \<times> nat option" where
  "error ev (Thrown p) msg =
     (if truthy_prim p then (ToString_prim p @ LF, Some 1) else ([], None))"
| "error ev (ErrorObj stack str props cause) msg =
     (let first = (if truthy_str stack then the stack else str) @ LF;
          opts = (if length props \<noteq> 0 then msg @ '' '' @ inspect ev props @ LF else [])
      in if truthy_thrown cause then
           (case error ev cause ''Error Cause:'' of
              (text, Some code) \<Rightarrow> (first @ opts @ text, Some code)
            | (text, None) \<Rightarrow> (first @ opts @ text, Some 1))
         else (first @ opts, Some 1))"

record process =
  stdout :: string
  exitCode :: nat

text \<open>
  \<^verbatim>\<open>
  program.parseAsync(process.argv).catch(e => { _error(e); });
  \<close>
  An action ends with the text it has written and, if it threw, the error. A process
  that is not ended by \<^verbatim>\<open>process.exit\<close> ends with the code 0.
\<close>

definition parseAsync_catch :: "env \<Rightarrow> string \<times> thrown option \<Rightarrow> process" where
  "parseAsync_catch ev r =
     (case r of
        (written, None) \<Rightarrow> \<lparr> stdout = written, exitCode = 0 \<rparr>
      | (written, Some e) \<Rightarrow>
          (case error ev e ''Error:'' of
             (text, code) \<Rightarrow>
               \<lparr> stdout = written @ text,
                 exitCode = (case code of None \<Rightarrow> 0 | Some c \<Rightarrow> c) \<rparr>))"

section \<open>The commands\<close>

text \<open>\<^verbatim>\<open>input = input || '-'\<close>\<close>

definition input_or_stdin :: "string option \<Rightarrow> string" where
  "input_or_stdin input = (if truthy_str input then the input else ''-'')"

text \<open>
  Every action but \<^verbatim>\<open>lint\<close> ends with
  \<^verbatim>\<open>const result = await jsonld.f(...); await _output(result, cmd);\<close>
  While the library runs, the installed event handler logs the warnings; then the result
  is written, or the error of the library or of \<^verbatim>\<open>_output\<close> is thrown.
\<close>

definition logged :: "env \<Rightarrow> bool \<Rightarrow> event list \<Rightarrow> string" where
  "logged ev handler events = (if handler then concat (map (warningHandler ev) events) else [])"

definition await_output ::
  "env \<Rightarrow> jsonld_options \<Rightarrow> command \<Rightarrow> event list \<times> (thrown + jsval) \<Rightarrow> string \<times> thrown option" where
  "await_output ev options cmd r =
     (case snd r of
        Inl e \<Rightarrow> (logged ev (opt_eventHandler options) (fst r), Some e)
      | Inr result \<Rightarrow>
          (case output_data ev result cmd of
             Inl e \<Rightarrow> (logged ev (opt_eventHandler options) (fst r), Some e)
           | Inr written \<Rightarrow> (logged ev (opt_eventHandler options) (fst r) @ written, None)))"

text \<open>
  \<^verbatim>\<open>
  async function format(input, cmd) {
    input = input || '-';
    const options = _jsonLdOptions(cmd, input);
    options.format = cmd.format || 'json';
    if(cmd.nQuads) { options.format = 'application/n-quads'; }
    if(cmd.json) { options.format = 'application/json'; }
    if(cmd.context) { options.expandContext = cmd.context; }
    let result;
    switch(options.format.toLowerCase()) {
      case 'nquads': case 'n-quads': case 'application/nquads': case 'application/n-quads':
        options.format = 'application/n-quads';
        result = await jsonld.toRDF(input, options);
        break;
      case 'json': case 'jsonld': case 'json-ld': case 'ld+json':
      case 'application/json': case 'application/ld+json':
        const reqOpts = _requestOptions(cmd, input);
        const reqResult = await _jsonldRequest(input, reqOpts, options);
        result = reqResult.data;
        break;
      default:
        throw new Error('ERROR: Unknown format: ' + options.format);
    }
    await _output(result, cmd);
  }
  \<close>
  The request of the second branch is the first call of the wrapper in the process, so
  \<^verbatim>\<open>_primary\<close> is still \<^verbatim>\<open>true\<close>.
\<close>

definition selected_format :: "command \<Rightarrow> string" where
  "selected_format cmd =
     (let f0 = (if truthy_str (cmd_format cmd) then the (cmd_format cmd) else ''json'');
          f1 = (if cmd_nQuads cmd then ''application/n-quads'' else f0);
          f2 = (if cmd_json cmd then ''application/json'' else f1)
      in f2)"

definition format :: "env \<Rightarrow> string option \<Rightarrow> command \<Rightarrow> string \<times> thrown option" where
  "format ev input0 cmd =
     (let input = input_or_stdin input0;
          options0 = (jsonLdOptions ev cmd input)\<lparr>opt_format := Some (selected_format cmd)\<rparr>;
          options = (if truthy_str (cmd_context cmd)
                     then options0\<lparr>opt_expandContext := cmd_context cmd\<rparr> else options0);
          l = toLowerCase (selected_format cmd)
      in if l = ''nquads'' \<or> l = ''n-quads'' \<or> l = ''application/nquads''
            \<or> l = ''application/n-quads'' then
           (let options' = options\<lparr>opt_format := Some ''application/n-quads''\<rparr>
            in await_output ev options' cmd (jsonld_toRDF ev input options'))
         else if l = ''json'' \<or> l = ''jsonld'' \<or> l = ''json-ld'' \<or> l = ''ld+json''
            \<or> l = ''application/json'' \<or> l = ''application/ld+json'' then
           (case fst (jsonldRequest_wrapper ev input (requestOptions ev cmd input)
                        (opt_allow options) True) of
              Inl e \<Rightarrow> ([], Some e)
            | Inr data \<Rightarrow>
                (case output_data ev data cmd of
                   Inl e \<Rightarrow> ([], Some e)
                 | Inr written \<Rightarrow> (written, None)))
         else ([], Some (new_Error (frames ev) (''ERROR: Unknown format: '' @ selected_format cmd))))"

text \<open>
  \<^verbatim>\<open>
  async function lint(input, cmd) {
    input = input || '-';
    const options = _jsonLdOptions(cmd, input);
    await jsonld.expand(input, {...options, eventHandler: _warningHandler});
  }
  \<close>
\<close>

definition lint :: "env \<Rightarrow> string option \<Rightarrow> command \<Rightarrow> string \<times> thrown option" where
  "lint ev input0 cmd =
     (let input = input_or_stdin input0;
          options = jsonLdOptions ev cmd input;
          r = jsonld_expand ev input (options\<lparr>opt_eventHandler := True\<rparr>)
      in (logged ev True (fst r), (case snd r of Inl e \<Rightarrow> Some e | Inr result \<Rightarrow> None)))"

text \<open>
  \<^verbatim>\<open>
  async function compact(input, cmd) {
    input = input || '-';
    if(!cmd.context) {
      throw new Error('ERROR: Context not specified, use -c/--context');
    }
    const options = _jsonLdOptions(cmd, input);
    options.compactArrays = cmd.compactArrays;
    options.graph = !!cmd.graph;
    const result = await jsonld.compact(input, cmd.context, options);
    await _output(result, cmd);
  }
  \<close>
\<close>

definition compact :: "env \<Rightarrow> string option \<Rightarrow> command \<Rightarrow> string \<times> thrown option" where
  "compact ev input0 cmd =
     (let input = input_or_stdin input0
      in if \<not> truthy_str (cmd_context cmd) then
           ([], Some (new_Error (frames ev) ''ERROR: Context not specified, use -c/--context''))
         else
           (let options = (jsonLdOptions ev cmd input)
                  \<lparr>opt_compactArrays := Some (cmd_compactArrays cmd),
                   opt_graph := Some (cmd_graph cmd)\<rparr>
            in await_output ev options cmd
                 (jsonld_compact ev input (the (cmd_context cmd)) options)))"

text \<open>
  \<^verbatim>\<open>
  async function expand(input, cmd) {
    input = input || '-';
    const options = _jsonLdOptions(cmd, input);
    if(cmd.context) { options.expandContext = cmd.context; }
    options.keepFreeFloatingNodes = cmd.keepFreeFloatingNodes;
    const result = await jsonld.expand(input, options);
    await _output(result, cmd);
  }
  \<close>
\<close>

definition expand :: "env \<Rightarrow> string option \<Rightarrow> command \<Rightarrow> string \<times> thrown option" where
  "expand ev input0 cmd =
     (let input = input_or_stdin input0;
          options0 = jsonLdOptions ev cmd input;
          options1 = (if truthy_str (cmd_context cmd)
                      then options0\<lparr>opt_expandContext := cmd_context cmd\<rparr> else options0);
          options = options1\<lparr>opt_keepFreeFloatingNodes :=
                      (if cmd_keepFreeFloatingNodes cmd then Some True else None)\<rparr>
      in await_output ev options cmd (jsonld_expand ev input options))"

text \<open>
  \<^verbatim>\<open>
  async function flatten(input, cmd) {
    input = input || '-';
    const options = _jsonLdOptions(cmd, input);
    const result = await jsonld.flatten(input, cmd.context, options);
    await _output(result, cmd);
  }
  \<close>
\<close>

definition flatten :: "env \<Rightarrow> string option \<Rightarrow> command \<Rightarrow> string \<times> thrown option" where
  "flatten ev input0 cmd =
     (let input = input_or_stdin input0;
          options = jsonLdOptions ev cmd input
      in await_output ev options cmd (jsonld_flatten ev input (cmd_context cmd) options))"

text \<open>
  \<^verbatim>\<open>
  async function frame(input, cmd) {
    input = input || '-';
    if(!cmd.frame) {
      throw new Error('ERROR: Frame not specified, use -f/--frame');
    }
    const options = _jsonLdOptions(cmd, input);
    options.embed = cmd.embed;
    options.explicit = cmd.explicit;
    options.omitDefault = cmd.omitDefault;
    const result = await jsonld.frame(input, cmd.frame, options);
    await _output(result, cmd);
  }
  \<close>
\<close>

definition frame :: "env \<Rightarrow> string option \<Rightarrow> command \<Rightarrow> string \<times> thrown option" where
  "frame ev input0 cmd =
     (let input = input_or_stdin input0
      in if \<not> truthy_str (cmd_frame cmd) then
           ([], Some (new_Error (frames ev) ''ERROR: Frame not specified, use -f/--frame''))
         else
           (let options = (jsonLdOptions ev cmd input)
                  \<lparr>opt_embed := Some (cmd_embed cmd),
                   opt_explicit := Some (cmd_explicit cmd),
                   opt_omitDefault := Some (cmd_omitDefault cmd)\<rparr>
            in await_output ev options cmd
                 (jsonld_frame ev input (the (cmd_frame cmd)) options)))"

text \<open>
  \<^verbatim>\<open>
  async function toRdf(input, cmd) {
    input = input || '-';
    const options = _jsonLdOptions(cmd, input);
    if(cmd.nQuads) { options.format = 'application/n-quads'; }
    if(cmd.generalizedRdf) { options.produceGeneralizedRdf = true; }
    if(cmd.format) { options.format = cmd.format; }
    const result = await jsonld.toRDF(input, options);
    await _output(result, cmd);
  }
  async function canonize(input, cmd) {
    input = input || '-';
    const options = _jsonLdOptions(cmd, input);
    if(cmd.nQuads) { options.format = 'application/n-quads'; }
    if(cmd.format) { options.format = cmd.format; }
    const result = await jsonld.canonize(input, options);
    await _output(result, cmd);
  }
  \<close>
\<close>

definition rdf_format :: "command \<Rightarrow> string option" where
  "rdf_format cmd =
     (let f0 = (if cmd_nQuads cmd then Some ''application/n-quads'' else None)
      in if truthy_str (cmd_format cmd) then cmd_format cmd else f0)"

definition toRdf :: "env \<Rightarrow> string option \<Rightarrow> command \<Rightarrow> string \<times> thrown option" where
  "toRdf ev input0 cmd =
     (let input = input_or_stdin input0;
          options = (jsonLdOptions ev cmd input)
            \<lparr>opt_format := rdf_format cmd,
             opt_produceGeneralizedRdf := (if cmd_generalizedRdf cmd then Some True else None)\<rparr>
      in await_output ev options cmd (jsonld_toRDF ev input options))"

definition canonize :: "env \<Rightarrow> string option \<Rightarrow> command \<Rightarrow> string \<times> thrown option" where
  "canonize ev input0 cmd =
     (let input = input_or_stdin input0;
          options = (jsonLdOptions ev cmd input)\<lparr>opt_format := rdf_format cmd\<rparr>
      in await_output ev options cmd (jsonld_canonize ev input options))"

subsection \<open>The specification of compact\<close>


subsection \<open>One invocation\<close>

datatype subcommand = Format | Lint | Compact | Expand | Flatten | Frame | ToRdf | Canonize

fun action :: "subcommand \<Rightarrow> env \<Rightarrow> string option \<Rightarrow> command \<Rightarrow> string \<times> thrown option" where
  "action Format = format"
| "action Lint = lint"
| "action Compact = compact"
| "action Expand = expand"
| "action Flatten = flatten"
| "action Frame = frame"
| "action ToRdf = toRdf"
| "action Canonize = canonize"

text \<open>
  The options are parsed, the action of the subcommand runs once, and an error of either
  goes to the handler installed with \<^verbatim>\<open>catch\<close>.
\<close>

definition main :: "env \<Rightarrow> subcommand \<Rightarrow> string option \<Rightarrow> argv \<Rightarrow> process" where
  "main ev sub input a =
     parseAsync_catch ev
       (case jsonLdCommand (frames ev) a of
          Inl e \<Rightarrow> ([], Some e)
        | Inr cmd \<Rightarrow> action sub ev input cmd)"

subsection \<open>A sample invocation\<close>

text \<open>
  An invocation with no option given, and an environment whose library returns one small
  document and emits no event; they serve as concrete inputs.
\<close>

definition no_args :: argv where
  "no_args =
     \<lparr> arg_indent = None, arg_no_newline = False, arg_insecure = False, arg_allow = None,
       arg_type = None, arg_auto_base = False, arg_base = None, arg_lint = False,
       arg_safe = False, arg_context = None, arg_format = None, arg_n_quads = False,
       arg_json = False, arg_no_compact_arrays = False, arg_graph = False,
       arg_keep_free_floating_nodes = False, arg_frame = None, arg_embed = None,
       arg_explicit = None, arg_omit_default = None, arg_generalized_rdf = False \<rparr>"

definition sample_doc :: jsval where
  "sample_doc = Obj [(''a'', P (Num 1))]"

definition sample_env :: env where
  "sample_env =
     \<lparr> frames = [],
       inspect = (\<lambda>props. ''{...}''),
       inspect_event = (\<lambda>e. ''{...}''),
       cwd = ''/work'',
       path_resolve = (\<lambda>dir p. dir @ ''/'' @ p),
       write_TypeError = (\<lambda>chunk. ErrorObj None ''TypeError'' [] (Thrown Undefined)),
       lib_jsonldRequest = (\<lambda>url opts. Inr sample_doc),
       jsonld_toRDF = (\<lambda>input opts. ([], Inr sample_doc)),
       jsonld_expand = (\<lambda>input opts. ([], Inr sample_doc)),
       jsonld_compact = (\<lambda>input ctx opts. ([], Inr sample_doc)),
       jsonld_flatten = (\<lambda>input ctx opts. ([], Inr sample_doc)),
       jsonld_frame = (\<lambda>input frm opts. ([], Inr sample_doc)),
       jsonld_canonize = (\<lambda>input opts. ([], Inr sample_doc)) \<rparr>"

section \<open>Properties\<close>

lemma toLowerCase_Nil [simp]: "toLowerCase [] = []"
  by (simp add: toLowerCase_def)

lemma toLowerCase_eq_Nil [simp]: "(toLowerCase s = []) = (s = [])"
  by (simp add: toLowerCase_def)

lemma toLowerCase_samples:
  "toLowerCase ''Yes'' = ''yes'' \<and> toLowerCase ''FALSE'' = ''false''
   \<and> toLowerCase ''maybe'' = ''maybe''"
  by code_simp

text \<open>
  C10: \<^verbatim>\<open>boolify\<close> returns a boolean unchanged; on a string it compares the lower-cased
  value with exactly ten words, five giving true and five giving false; every other
  string, the empty one included, raises \<^verbatim>\<open>Error('Invalid boolean:' + value)\<close>.
\<close>

theorem boolify_ten_words:
  "boolify fr (P (Bool b)) = Inr b \<and>
   boolify fr (P (Str s)) =
     (if toLowerCase s \<in> {''true'', ''t'', ''1'', ''yes'', ''y''} then Inr True
      else if toLowerCase s \<in> {''false'', ''f'', ''0'', ''no'', ''n''} then Inr False
      else Inl (new_Error fr (''Invalid boolean:'' @ s))) \<and>
   boolify fr (P (Str [])) = Inl (new_Error fr ''Invalid boolean:'') \<and>
   boolify fr (P (Str ''Yes'')) = Inr True \<and>
   boolify fr (P (Str ''FALSE'')) = Inr False \<and>
   boolify fr (P (Str ''maybe'')) = Inl (new_Error fr ''Invalid boolean:maybe'')"
  using toLowerCase_samples by (auto simp: boolify_def boolify_switch_def)

subsection \<open>The request wrapper\<close>

text \<open>
  The part of \<^verbatim>\<open>_jsonldRequest\<close> before the library call has no \<^verbatim>\<open>await\<close>: it runs without
  interruption, so the calls of one process form a sequence.
\<close>

lemma issued_secondary:
  "issued allow calls False =
     (map (\<lambda>c. (fst c, (snd c)\<lparr>req_allow := allow\<rparr>)) calls, False)"
  by (induction calls) (auto simp: issue_def)



text \<open>
  C1: when \<^verbatim>\<open>-a/--allow\<close> is not given, \<^verbatim>\<open>_jsonLdOptions\<close> stores the default list http, https
  under \<^verbatim>\<open>options.access\<close> and leaves \<^verbatim>\<open>options.allow\<close> undefined; every request of the
  process after the first is therefore issued with \<^verbatim>\<open>allow\<close> undefined, not with the list
  http, https.
\<close>

theorem default_allow_left_undefined:
  "opt_allow (jsonLdOptions ev (cmd\<lparr>cmd_allow := None\<rparr>) input) = None
   \<and> opt_access (jsonLdOptions ev (cmd\<lparr>cmd_allow := None\<rparr>) input) = Some [''http'', ''https'']
   \<and> issued (opt_allow (jsonLdOptions ev (cmd\<lparr>cmd_allow := None\<rparr>) input))
        ((u, r) # calls) True =
        ((u, r\<lparr>req_allow := Some [''stdin'', ''file'', ''http'', ''https'']\<rparr>) #
         map (\<lambda>c. (fst c, (snd c)\<lparr>req_allow := None\<rparr>)) calls, False)"
  by (simp add: jsonLdOptions_def allow_of_def issue_def ALLOW_ALL_def ALLOW_DEFAULT_def
      issued_secondary)

subsection \<open>The allow-list\<close>









subsection \<open>The base IRI\<close>

lemma parsed_sourceBase: "jsonLdCommand fr a = Inr cmd \<Longrightarrow> \<not> cmd_sourceBase cmd"
  by (auto simp: jsonLdCommand_def split: sum.splits)

lemma getBase_explicit: "cmd_base cmd = Some b \<Longrightarrow> b \<noteq> [] \<Longrightarrow> getBase ev cmd input = Some b"
  by (simp add: getBase_def)

text \<open>
  C8: \<^verbatim>\<open>-B/--auto-base\<close> is stored as \<^verbatim>\<open>autoBase\<close>, and \<^verbatim>\<open>_getBase\<close> reads \<^verbatim>\<open>sourceBase\<close>: for the
  invocation with \<^verbatim>\<open>-B\<close> alone and the input \<^verbatim>\<open>http://example.com/doc.jsonld\<close> the base is
  \<^verbatim>\<open>null\<close>, although \<^verbatim>\<open>_getSourceBase\<close> would give the input itself.
\<close>

theorem auto_base_not_read:
  "cmd_autoBase (projr (jsonLdCommand fr (no_args\<lparr>arg_auto_base := True\<rparr>))) = True
   \<and> getBase ev (projr (jsonLdCommand fr (no_args\<lparr>arg_auto_base := True\<rparr>)))
        ''http://example.com/doc.jsonld'' = None
   \<and> getSourceBase ev (projr (jsonLdCommand fr (no_args\<lparr>arg_auto_base := True\<rparr>)))
        ''http://example.com/doc.jsonld'' = ''http://example.com/doc.jsonld''"
  by (simp add: jsonLdCommand_def no_args_def boolify_option_def getBase_def getSourceBase_def
      isHTTP_def starts_with_def)

subsection \<open>Errors and the exit code\<close>

lemma error_falsy: "\<not> truthy_thrown e \<Longrightarrow> error ev e msg = ([], None)"
  by (cases e) auto

lemma error_exit: "truthy_thrown e \<Longrightarrow> snd (error ev e msg) = Some 1"
proof (induction e arbitrary: msg)
  case (Thrown p)
  then show ?case by simp
next
  case (ErrorObj stack str props cause)
  show ?case
  proof (cases "truthy_thrown cause")
    case True
    obtain t c where r: "error ev cause ''Error Cause:'' = (t, c)"
      by (cases "error ev cause ''Error Cause:''") auto
    from ErrorObj.IH [OF True, of "''Error Cause:''"] r have "c = Some 1" by simp
    with r True show ?thesis by (simp add: Let_def)
  next
    case False
    then show ?thesis by (simp add: Let_def)
  qed
qed

lemma error_text:
  "fst (error ev (ErrorObj stack str props cause) msg) =
     (case stack of None \<Rightarrow> str | Some s \<Rightarrow> if s = [] then str else s) @ LF @
     (if props = [] then [] else msg @ '' '' @ inspect ev props @ LF) @
     fst (error ev cause ''Error Cause:'')"
  by (cases stack) (auto simp: Let_def error_falsy split: prod.splits option.splits)

lemma parsed_fields:
  "jsonLdCommand fr a = Inr cmd \<Longrightarrow>
     cmd_context cmd = arg_context a \<and> cmd_frame cmd = arg_frame a \<and>
     cmd_indent cmd = (case arg_indent a of None \<Rightarrow> 2 | Some n \<Rightarrow> n) \<and>
     cmd_newline cmd = (\<not> arg_no_newline a) \<and> cmd_allow cmd = arg_allow a \<and>
     cmd_base cmd = arg_base a \<and> cmd_autoBase cmd = arg_auto_base a \<and>
     cmd_compactArrays cmd = (\<not> arg_no_compact_arrays a) \<and> cmd_graph cmd = arg_graph a \<and>
     cmd_safe cmd = arg_safe a \<and> cmd_format cmd = arg_format a \<and>
     cmd_nQuads cmd = arg_n_quads a \<and> cmd_json cmd = arg_json a"
  by (auto simp: jsonLdCommand_def split: sum.splits)

lemma catch_new_Error:
  "parseAsync_catch ev (w, Some (new_Error fr msg)) =
     \<lparr> stdout = w @ ''Error: '' @ msg @ fr @ LF, exitCode = 1 \<rparr>"
  by (simp add: parseAsync_catch_def new_Error_def)


lemma parse_no_args: "jsonLdCommand fr no_args =
  Inr \<lparr> cmd_indent = 2, cmd_newline = True, cmd_insecure = False, cmd_allow = None,
        cmd_type = None, cmd_autoBase = False, cmd_sourceBase = False, cmd_base = None,
        cmd_lint = False, cmd_safe = False, cmd_context = None, cmd_format = None,
        cmd_nQuads = False, cmd_json = False, cmd_compactArrays = True, cmd_graph = False,
        cmd_keepFreeFloatingNodes = False, cmd_frame = None, cmd_embed = True,
        cmd_explicit = False, cmd_omitDefault = False, cmd_generalizedRdf = False \<rparr>"
  by (simp add: jsonLdCommand_def no_args_def boolify_option_def)


text \<open>
  C5: an error thrown by the parse or by the action (any truthy thrown value, so every
  error object) is logged by \<^verbatim>\<open>_error\<close> and the process exits with the code 1. The log of
  an error object is its stack if that is set and not empty, else its string form; then,
  if it has enumerable properties of its own besides \<^verbatim>\<open>cause\<close>, the label and their
  inspection; then the log of its cause, in the same way. The action runs once: the
  outcome of the process is the handler applied to the one outcome of the parse and the
  action. Without an error the process ends with the code 0.
\<close>

theorem errors_logged_exit_1:
  "(truthy_thrown e \<longrightarrow>
      parseAsync_catch ev (written, Some e) =
        \<lparr> stdout = written @ fst (error ev e ''Error:''), exitCode = 1 \<rparr>)
   \<and> fst (error ev (ErrorObj stack str props cause) msg) =
       (case stack of None \<Rightarrow> str | Some s \<Rightarrow> if s = [] then str else s) @ LF @
       (if props = [] then [] else msg @ '' '' @ inspect ev props @ LF) @
       fst (error ev cause ''Error Cause:'')
   \<and> fst (error ev (Thrown p) msg) = (if truthy_prim p then ToString_prim p @ LF else [])
   \<and> parseAsync_catch ev (written, None) = \<lparr> stdout = written, exitCode = 0 \<rparr>
   \<and> (jsonLdCommand (frames ev) a = Inr cmd \<longrightarrow>
        main ev sub input a = parseAsync_catch ev (action sub ev input cmd))
   \<and> (jsonLdCommand (frames ev) a = Inl e \<longrightarrow>
        main ev sub input a = parseAsync_catch ev ([], Some e))"
proof (intro conjI impI)
  assume t: "truthy_thrown e"
  show "parseAsync_catch ev (written, Some e) =
        \<lparr> stdout = written @ fst (error ev e ''Error:''), exitCode = 1 \<rparr>"
    using error_exit [OF t, of ev "''Error:''"]
    by (cases "error ev e ''Error:''") (simp add: parseAsync_catch_def)
next
  show "fst (error ev (ErrorObj stack str props cause) msg) =
       (case stack of None \<Rightarrow> str | Some s \<Rightarrow> if s = [] then str else s) @ LF @
       (if props = [] then [] else msg @ '' '' @ inspect ev props @ LF) @
       fst (error ev cause ''Error Cause:'')"
    by (rule error_text)
next
  show "fst (error ev (Thrown p) msg) = (if truthy_prim p then ToString_prim p @ LF else [])"
    by simp
next
  show "parseAsync_catch ev (written, None) = \<lparr> stdout = written, exitCode = 0 \<rparr>"
    by (simp add: parseAsync_catch_def)
next
  assume "jsonLdCommand (frames ev) a = Inr cmd"
  then show "main ev sub input a = parseAsync_catch ev (action sub ev input cmd)"
    by (simp add: main_def)
next
  assume "jsonLdCommand (frames ev) a = Inl e"
  then show "main ev sub input a = parseAsync_catch ev ([], Some e)"
    by (simp add: main_def)
qed

text \<open>
  An error object with a property and a cause, an invocation that parses, and one whose
  \<^verbatim>\<open>--embed\<close> value \<^verbatim>\<open>boolify\<close> rejects.
\<close>

theorem errors_logged_exit_1_witness:
  "parseAsync_catch sample_env
     ([], Some (ErrorObj (Some ''Error: fetch failed'') ''Error: fetch failed''
                  [(''code'', P (Str ''ENOTFOUND''))]
                  (ErrorObj None ''inner'' [] (Thrown Undefined)))) =
     \<lparr> stdout = ''Error: fetch failed'' @ LF @ ''Error: {...}'' @ LF @ ''inner'' @ LF,
       exitCode = 1 \<rparr>
   \<and> main sample_env Expand (Some ''doc.jsonld'') no_args =
       parseAsync_catch sample_env
         (action Expand sample_env (Some ''doc.jsonld'') (projr (jsonLdCommand [] no_args)))
   \<and> main sample_env Frame (Some ''doc.jsonld'') (no_args\<lparr>arg_embed := Some ''maybe''\<rparr>) =
       \<lparr> stdout = ''Error: Invalid boolean:maybe'' @ LF, exitCode = 1 \<rparr>"
proof -
  let ?inner = "ErrorObj None ''inner'' [] (Thrown Undefined)"
  let ?e = "ErrorObj (Some ''Error: fetch failed'') ''Error: fetch failed''
              [(''code'', P (Str ''ENOTFOUND''))] ?inner"
  let ?b = "new_Error [] ''Invalid boolean:maybe''"
  have t: "truthy_thrown ?e" by simp
  have tb: "truthy_thrown ?b" by (simp add: new_Error_def)
  have f: "frames sample_env = []" by (simp add: sample_env_def)
  have i: "inspect sample_env [(''code'', P (Str ''ENOTFOUND''))] = ''{...}''"
    by (simp add: sample_env_def)
  have p1: "jsonLdCommand (frames sample_env) no_args = Inr (projr (jsonLdCommand [] no_args))"
    by (simp add: f parse_no_args)
  have p2: "jsonLdCommand (frames sample_env) (no_args\<lparr>arg_embed := Some ''maybe''\<rparr>) = Inl ?b"
    by (simp add: f jsonLdCommand_def no_args_def boolify_option_def boolify_def
        boolify_switch_def toLowerCase_def lower_char_def)
  have eb: "fst (error sample_env ?b ''Error:'') = ''Error: Invalid boolean:maybe'' @ LF"
    by (simp add: new_Error_def)
  note a = errors_logged_exit_1 [of ?e sample_env "[]" None "''inner''" "[]" "Thrown Undefined"
      "''Error Cause:''" Undefined no_args "projr (jsonLdCommand [] no_args)" Expand
      "Some ''doc.jsonld''"]
  note b = errors_logged_exit_1 [of ?b sample_env "[]" "Some ''Error: fetch failed''"
      "''Error: fetch failed''" "[(''code'', P (Str ''ENOTFOUND''))]" ?inner
      "''Error:''" Undefined "no_args\<lparr>arg_embed := Some ''maybe''\<rparr>" _ Frame
      "Some ''doc.jsonld''"]
  show ?thesis
    using a b t tb p1 p2 i eb by simp
qed

subsection \<open>Output\<close>

lemma serialize_object:
  "typeof d = ''object'' \<Longrightarrow> \<exists>t. SerializeJSONProperty g i d = Some t"
proof (cases d)
  case (P p)
  assume "typeof d = ''object''"
  with P show ?thesis by (cases p) auto
qed auto

lemma gap_of_replicate: "gap_of n = replicate (nat (min 10 n)) CHR '' ''"
  by (auto simp: gap_of_def)

lemma output_object:
  assumes "typeof d = ''object''"
  shows "output_data ev d cmd =
           Inr (the (JSON_stringify d (cmd_indent cmd)) @ (if cmd_newline cmd then LF else []))"
proof -
  obtain t where "SerializeJSONProperty (gap_of (cmd_indent cmd)) [] d = Some t"
    using serialize_object [OF assms] by blast
  then show ?thesis using assms
    by (simp add: output_data_def JSON_stringify_def stdout_write_def)
qed

lemma output_string:
  "output_data ev (P (Str s)) cmd = Inr (trim s @ (if cmd_newline cmd then LF else []))"
  by (simp add: output_data_def stdout_write_def)

lemma trim_decompose:
  "\<exists>a b. s = a @ trim s @ b \<and> (\<forall>c \<in> set a. is_space c) \<and> (\<forall>c \<in> set b. is_space c)"
proof -
  let ?d = "dropWhile is_space s"
  let ?a = "takeWhile is_space s"
  let ?b = "rev (takeWhile is_space (rev ?d))"
  have "rev (dropWhile is_space (rev ?d)) @ ?b =
          rev (takeWhile is_space (rev ?d) @ dropWhile is_space (rev ?d))"
    by (simp only: rev_append)
  also have "\<dots> = rev (rev ?d)" by (simp only: takeWhile_dropWhile_id)
  finally have d: "?d = trim s @ ?b" by (simp add: trim_def)
  have "s = ?a @ ?d" by simp
  with d have s: "s = ?a @ trim s @ ?b" by simp
  have a: "\<forall>c \<in> set ?a. is_space c" by (auto dest: set_takeWhileD)
  have b: "\<forall>c \<in> set ?b. is_space c" by (auto dest: set_takeWhileD)
  from s a b show ?thesis by blast
qed

lemma trim_ends:
  assumes "trim s \<noteq> []"
  shows "\<not> is_space (hd (trim s)) \<and> \<not> is_space (last (trim s))"
proof -
  let ?d = "dropWhile is_space s"
  let ?r = "dropWhile is_space (rev ?d)"
  from assms have r: "?r \<noteq> []" by (simp add: trim_def)
  then have rd: "rev ?d \<noteq> []" by (metis dropWhile.simps(1))
  then have dn: "?d \<noteq> []" by simp
  have l: "\<not> is_space (hd ?r)" using r by (rule hd_dropWhile)
  have "last ?r = last (rev ?d)"
    using r by (metis append_Nil2 last_appendR takeWhile_dropWhile_id)
  also have "\<dots> = hd ?d" using dn by (simp add: last_rev)
  finally have h: "\<not> is_space (last ?r)" using hd_dropWhile [OF dn] by simp
  have "hd (trim s) = last ?r" using r by (simp add: trim_def hd_rev)
  moreover have "last (trim s) = hd ?r" using r by (simp add: trim_def last_rev)
  ultimately show ?thesis using l h by simp
qed

text \<open>
  C7, amended: a result of type object is written as \<^verbatim>\<open>JSON.stringify\<close> serializes it with a
  gap of \<^verbatim>\<open>min(n, 10)\<close> spaces per level, \<^verbatim>\<open>n\<close> being the value of \<^verbatim>\<open>-i/--indent\<close> (2 when the
  option is not given; no gap for \<^verbatim>\<open>n\<close> below 1); a string result is written without the white
  space at its two ends; then one line feed is written, unless \<^verbatim>\<open>-N/--no-newline\<close> is given.
\<close>

theorem output_written:
  "(typeof data = ''object'' \<longrightarrow>
      (\<exists>t. SerializeJSONProperty (replicate (nat (min 10 (cmd_indent cmd))) CHR '' '') [] data = Some t
          \<and> output_data ev data cmd = Inr (t @ (if cmd_newline cmd then LF else []))))
   \<and> output_data ev (P (Str s)) cmd = Inr (trim s @ (if cmd_newline cmd then LF else []))
   \<and> (\<exists>a b. s = a @ trim s @ b \<and> (\<forall>c \<in> set a. is_space c) \<and> (\<forall>c \<in> set b. is_space c))
   \<and> (trim s \<noteq> [] \<longrightarrow> \<not> is_space (hd (trim s)) \<and> \<not> is_space (last (trim s)))
   \<and> (jsonLdCommand fr a = Inr cmd \<longrightarrow>
        cmd_indent cmd = (case arg_indent a of None \<Rightarrow> 2 | Some n \<Rightarrow> n)
        \<and> cmd_newline cmd = (\<not> arg_no_newline a))"
proof (intro conjI impI)
  assume o: "typeof data = ''object''"
  obtain t where t: "SerializeJSONProperty (gap_of (cmd_indent cmd)) [] data = Some t"
    using serialize_object [OF o] by blast
  then have "output_data ev data cmd = Inr (t @ (if cmd_newline cmd then LF else []))"
    using output_object [OF o, of ev cmd] by (simp add: JSON_stringify_def)
  with t show "\<exists>t. SerializeJSONProperty (replicate (nat (min 10 (cmd_indent cmd))) CHR '' '') [] data = Some t
          \<and> output_data ev data cmd = Inr (t @ (if cmd_newline cmd then LF else []))"
    by (simp add: gap_of_replicate)
next
  show "output_data ev (P (Str s)) cmd = Inr (trim s @ (if cmd_newline cmd then LF else []))"
    by (rule output_string)
next
  show "\<exists>a b. s = a @ trim s @ b \<and> (\<forall>c \<in> set a. is_space c) \<and> (\<forall>c \<in> set b. is_space c)"
    by (rule trim_decompose)
next
  assume "trim s \<noteq> []"
  then show "\<not> is_space (hd (trim s))" "\<not> is_space (last (trim s))"
    using trim_ends by blast+
next
  assume p: "jsonLdCommand fr a = Inr cmd"
  then show "cmd_indent cmd = (case arg_indent a of None \<Rightarrow> 2 | Some n \<Rightarrow> n)"
    and "cmd_newline cmd = (\<not> arg_no_newline a)"
    using parsed_fields [OF p] by simp_all
qed


lemma parse_indent_20: "jsonLdCommand fr (no_args\<lparr>arg_indent := Some 20\<rparr>) =
  Inr \<lparr> cmd_indent = 20, cmd_newline = True, cmd_insecure = False, cmd_allow = None,
        cmd_type = None, cmd_autoBase = False, cmd_sourceBase = False, cmd_base = None,
        cmd_lint = False, cmd_safe = False, cmd_context = None, cmd_format = None,
        cmd_nQuads = False, cmd_json = False, cmd_compactArrays = True, cmd_graph = False,
        cmd_keepFreeFloatingNodes = False, cmd_frame = None, cmd_embed = True,
        cmd_explicit = False, cmd_omitDefault = False, cmd_generalizedRdf = False \<rparr>"
  by (simp add: jsonLdCommand_def no_args_def boolify_option_def)

lemma show_int_1: "show_int 1 = ''1''"
  by code_simp

lemma serialize_sample:
  "SerializeJSONProperty gap [] sample_doc =
     Some (if gap = [] then ''{'' @ [CHR 0x22] @ ''a'' @ [CHR 0x22] @ '':1}''
           else ''{'' @ LF @ gap @ [CHR 0x22] @ ''a'' @ [CHR 0x22] @ '': 1'' @ LF @ ''}'')"
  by (simp add: sample_doc_def wrap_def QuoteJSONString_def quote_char_def show_int_1)

text \<open>
  With \<^verbatim>\<open>-i 20\<close> the document \<^verbatim>\<open>{"a": 1}\<close> is written with ten spaces of indentation, not
  twenty: \<^verbatim>\<open>JSON.stringify\<close> caps the indentation at ten.
\<close>

theorem indent_above_ten_counterexample:
  "output_data sample_env sample_doc (projr (jsonLdCommand [] (no_args\<lparr>arg_indent := Some 20\<rparr>)))
     = Inr (''{'' @ LF @ replicate 10 CHR '' '' @ [CHR 0x22] @ ''a'' @ [CHR 0x22] @ '': 1'' @ LF @ ''}'' @ LF)
   \<and> output_data sample_env sample_doc (projr (jsonLdCommand [] (no_args\<lparr>arg_indent := Some 20\<rparr>)))
     \<noteq> Inr (''{'' @ LF @ replicate 20 CHR '' '' @ [CHR 0x22] @ ''a'' @ [CHR 0x22] @ '': 1'' @ LF @ ''}'' @ LF)"
proof -
  have o: "typeof sample_doc = ''object''" by (simp add: sample_doc_def)
  have g: "gap_of 20 = replicate 10 CHR '' ''" by (simp add: gap_of_replicate)
  have n: "replicate 10 CHR '' '' \<noteq> []" by simp
  have "output_data sample_env sample_doc (projr (jsonLdCommand [] (no_args\<lparr>arg_indent := Some 20\<rparr>)))
     = Inr (''{'' @ LF @ replicate 10 CHR '' '' @ [CHR 0x22] @ ''a'' @ [CHR 0x22] @ '': 1'' @ LF @ ''}'' @ LF)"
    using n by (simp only: output_object [OF o] parse_indent_20 sum.sel command.simps
        JSON_stringify_def g serialize_sample if_True if_False option.sel append_assoc)
  then show ?thesis by (simp add: LF_def)
qed

text \<open>
  The document \<^verbatim>\<open>{"a": 1}\<close> with no option given, and a line of N-Quads with \<^verbatim>\<open>-N\<close>.
\<close>

theorem output_written_witness:
  "output_data sample_env sample_doc (projr (jsonLdCommand [] no_args))
     = Inr (''{'' @ LF @ ''  '' @ [CHR 0x22] @ ''a'' @ [CHR 0x22] @ '': 1'' @ LF @ ''}'' @ LF)
   \<and> output_data sample_env (P (Str ''  <urn:a> <urn:b> <urn:c> .  ''))
        (projr (jsonLdCommand [] (no_args\<lparr>arg_no_newline := True\<rparr>)))
     = Inr ''<urn:a> <urn:b> <urn:c> .''"
proof -
  have o: "typeof sample_doc = ''object''" by (simp add: sample_doc_def)
  have p1: "jsonLdCommand [] no_args = Inr (projr (jsonLdCommand [] no_args))"
    by (simp add: parse_no_args)
  have p2: "jsonLdCommand [] (no_args\<lparr>arg_no_newline := True\<rparr>) =
              Inr (projr (jsonLdCommand [] (no_args\<lparr>arg_no_newline := True\<rparr>)))"
    by (simp add: jsonLdCommand_def no_args_def boolify_option_def)
  have a1: "arg_indent no_args = None \<and> \<not> arg_no_newline no_args" by (simp add: no_args_def)
  have a2: "arg_no_newline (no_args\<lparr>arg_no_newline := True\<rparr>)" by simp
  have t: "trim ''  <urn:a> <urn:b> <urn:c> .  '' = ''<urn:a> <urn:b> <urn:c> .''"
    by (simp add: trim_def is_space_def)
  have tn: "trim ''  <urn:a> <urn:b> <urn:c> .  '' \<noteq> []" by (simp add: t)
  have g: "replicate (nat (min 10 2)) CHR '' '' = ''  ''" by (simp add: numeral_2_eq_2)
  note a = output_written [of sample_doc "projr (jsonLdCommand [] no_args)" sample_env
      "''  <urn:a> <urn:b> <urn:c> .  ''" "[]" no_args]
  note b = output_written [of sample_doc "projr (jsonLdCommand [] (no_args\<lparr>arg_no_newline := True\<rparr>))"
      sample_env "''  <urn:a> <urn:b> <urn:c> .  ''" "[]" "no_args\<lparr>arg_no_newline := True\<rparr>"]
  have i: "cmd_indent (projr (jsonLdCommand [] no_args)) = 2
           \<and> cmd_newline (projr (jsonLdCommand [] no_args))"
    using a p1 a1 by simp
  have nn: "\<not> cmd_newline (projr (jsonLdCommand [] (no_args\<lparr>arg_no_newline := True\<rparr>)))"
    using b p2 a2 by simp
  from a o i g have "output_data sample_env sample_doc (projr (jsonLdCommand [] no_args))
     = Inr (''{'' @ LF @ ''  '' @ [CHR 0x22] @ ''a'' @ [CHR 0x22] @ '': 1'' @ LF @ ''}'' @ LF)"
    by (simp add: serialize_sample)
  moreover from b nn t
  have "output_data sample_env (P (Str ''  <urn:a> <urn:b> <urn:c> .  ''))
        (projr (jsonLdCommand [] (no_args\<lparr>arg_no_newline := True\<rparr>)))
     = Inr ''<urn:a> <urn:b> <urn:c> .''"
    by simp
  ultimately show ?thesis using tn by simp
qed

subsection \<open>The format and compact commands\<close>

lemma selected_format_eq:
  "selected_format cmd =
     (if cmd_json cmd then ''application/json''
      else if cmd_nQuads cmd then ''application/n-quads''
      else (case cmd_format cmd of None \<Rightarrow> ''json'' | Some f \<Rightarrow> if f = [] then ''json'' else f))"
  by (cases "cmd_format cmd") (auto simp: selected_format_def Let_def)

text \<open>
  C6: the format of \<^verbatim>\<open>format\<close> is \<^verbatim>\<open>application/json\<close> with \<^verbatim>\<open>-j\<close>, else \<^verbatim>\<open>application/n-quads\<close>
  with \<^verbatim>\<open>-q\<close>, else the value of \<^verbatim>\<open>-f\<close>, else \<^verbatim>\<open>json\<close>. If its lower-case form is one of
  the four N-Quads names, the library's \<^verbatim>\<open>toRDF\<close> is called with the format
  \<^verbatim>\<open>application/n-quads\<close> and its result is written; if it is one of the six JSON names,
  the input is fetched (as the primary request) and written, an object as JSON; for any
  other value \<^verbatim>\<open>Error('ERROR: Unknown format: ' + format)\<close> is thrown and the process exits
  with the code 1.
\<close>

theorem format_by_selected_format:
  "selected_format cmd =
     (if cmd_json cmd then ''application/json''
      else if cmd_nQuads cmd then ''application/n-quads''
      else (case cmd_format cmd of None \<Rightarrow> ''json'' | Some f \<Rightarrow> if f = [] then ''json'' else f))
   \<and> (toLowerCase (selected_format cmd)
          \<in> {''nquads'', ''n-quads'', ''application/nquads'', ''application/n-quads''} \<longrightarrow>
        (\<exists>opts. opt_format opts = Some ''application/n-quads''
           \<and> format ev input cmd =
               await_output ev opts cmd (jsonld_toRDF ev (input_or_stdin input) opts)))
   \<and> (toLowerCase (selected_format cmd)
          \<in> {''json'', ''jsonld'', ''json-ld'', ''ld+json'', ''application/json'',
              ''application/ld+json''} \<longrightarrow>
        format ev input cmd =
          (case lib_jsonldRequest ev (input_or_stdin input)
                  ((requestOptions ev cmd (input_or_stdin input))
                     \<lparr>req_allow := Some [''stdin'', ''file'', ''http'', ''https'']\<rparr>) of
             Inl e \<Rightarrow> ([], Some e)
           | Inr data \<Rightarrow>
               (case output_data ev data cmd of
                  Inl e \<Rightarrow> ([], Some e)
                | Inr written \<Rightarrow> (written, None)))
        \<and> (\<forall>data. lib_jsonldRequest ev (input_or_stdin input)
                  ((requestOptions ev cmd (input_or_stdin input))
                     \<lparr>req_allow := Some [''stdin'', ''file'', ''http'', ''https'']\<rparr>) = Inr data
                \<and> typeof data = ''object'' \<longrightarrow>
              format ev input cmd =
                (the (JSON_stringify data (cmd_indent cmd)) @ (if cmd_newline cmd then LF else []),
                 None)))
   \<and> (toLowerCase (selected_format cmd)
          \<notin> {''nquads'', ''n-quads'', ''application/nquads'', ''application/n-quads'',
              ''json'', ''jsonld'', ''json-ld'', ''ld+json'', ''application/json'',
              ''application/ld+json''} \<longrightarrow>
        format ev input cmd =
          ([], Some (new_Error (frames ev) (''ERROR: Unknown format: '' @ selected_format cmd)))
        \<and> parseAsync_catch ev (format ev input cmd) =
          \<lparr> stdout = ''Error: ERROR: Unknown format: '' @ selected_format cmd @ frames ev @ LF,
            exitCode = 1 \<rparr>)"
proof (intro conjI impI)
  show "selected_format cmd =
     (if cmd_json cmd then ''application/json''
      else if cmd_nQuads cmd then ''application/n-quads''
      else (case cmd_format cmd of None \<Rightarrow> ''json'' | Some f \<Rightarrow> if f = [] then ''json'' else f))"
    by (rule selected_format_eq)
next
  assume "toLowerCase (selected_format cmd)
          \<in> {''nquads'', ''n-quads'', ''application/nquads'', ''application/n-quads''}"
  then have "format ev input cmd =
      (let opts = (if truthy_str (cmd_context cmd)
                   then (jsonLdOptions ev cmd (input_or_stdin input))
                          \<lparr>opt_format := Some (selected_format cmd),
                           opt_expandContext := cmd_context cmd\<rparr>
                   else (jsonLdOptions ev cmd (input_or_stdin input))
                          \<lparr>opt_format := Some (selected_format cmd)\<rparr>)
                  \<lparr>opt_format := Some ''application/n-quads''\<rparr>
       in await_output ev opts cmd (jsonld_toRDF ev (input_or_stdin input) opts))"
    by (simp add: format_def Let_def)
  then show "\<exists>opts. opt_format opts = Some ''application/n-quads''
           \<and> format ev input cmd =
               await_output ev opts cmd (jsonld_toRDF ev (input_or_stdin input) opts)"
    by (metis (no_types, lifting) jsonld_options.select_convs(7) jsonld_options.surjective
        jsonld_options.update_convs(7))
next
  assume j: "toLowerCase (selected_format cmd)
          \<in> {''json'', ''jsonld'', ''json-ld'', ''ld+json'', ''application/json'',
              ''application/ld+json''}"
  then show f: "format ev input cmd =
          (case lib_jsonldRequest ev (input_or_stdin input)
                  ((requestOptions ev cmd (input_or_stdin input))
                     \<lparr>req_allow := Some [''stdin'', ''file'', ''http'', ''https'']\<rparr>) of
             Inl e \<Rightarrow> ([], Some e)
           | Inr data \<Rightarrow>
               (case output_data ev data cmd of
                  Inl e \<Rightarrow> ([], Some e)
                | Inr written \<Rightarrow> (written, None)))"
    by (auto simp: format_def Let_def jsonldRequest_wrapper_def issue_def ALLOW_ALL_def)
  show "\<forall>data. lib_jsonldRequest ev (input_or_stdin input)
                  ((requestOptions ev cmd (input_or_stdin input))
                     \<lparr>req_allow := Some [''stdin'', ''file'', ''http'', ''https'']\<rparr>) = Inr data
                \<and> typeof data = ''object'' \<longrightarrow>
              format ev input cmd =
                (the (JSON_stringify data (cmd_indent cmd)) @ (if cmd_newline cmd then LF else []),
                 None)"
    using f by (auto simp: output_object)
next
  assume u: "toLowerCase (selected_format cmd)
          \<notin> {''nquads'', ''n-quads'', ''application/nquads'', ''application/n-quads'',
              ''json'', ''jsonld'', ''json-ld'', ''ld+json'', ''application/json'',
              ''application/ld+json''}"
  then show f: "format ev input cmd =
          ([], Some (new_Error (frames ev) (''ERROR: Unknown format: '' @ selected_format cmd)))"
    by (simp add: format_def Let_def)
  show "parseAsync_catch ev (format ev input cmd) =
          \<lparr> stdout = ''Error: ERROR: Unknown format: '' @ selected_format cmd @ frames ev @ LF,
            exitCode = 1 \<rparr>"
    by (simp add: f catch_new_Error)
qed


lemma await_output_sample:
  "await_output ev opts cmd ([], Inr sample_doc) =
     (the (JSON_stringify sample_doc (cmd_indent cmd)) @ (if cmd_newline cmd then LF else []), None)"
proof -
  have o: "typeof sample_doc = ''object''" by (simp add: sample_doc_def)
  show ?thesis by (simp add: await_output_def logged_def output_object [OF o])
qed

lemma stringify_sample_2:
  "the (JSON_stringify sample_doc 2) =
     ''{'' @ LF @ ''  '' @ [CHR 0x22] @ ''a'' @ [CHR 0x22] @ '': 1'' @ LF @ ''}''"
proof -
  have "gap_of 2 = ''  ''" by (simp add: gap_of_replicate numeral_2_eq_2)
  then show ?thesis by (simp add: JSON_stringify_def serialize_sample)
qed

text \<open>The formats \<^verbatim>\<open>N-Quads\<close>, the default \<^verbatim>\<open>json\<close>, and \<^verbatim>\<open>Turtle\<close>.\<close>

theorem format_by_selected_format_witness:
  "format sample_env (Some ''doc.jsonld'')
       (projr (jsonLdCommand [] (no_args\<lparr>arg_format := Some ''N-Quads''\<rparr>))) =
     (''{'' @ LF @ ''  '' @ [CHR 0x22] @ ''a'' @ [CHR 0x22] @ '': 1'' @ LF @ ''}'' @ LF, None)
   \<and> format sample_env (Some ''doc.jsonld'') (projr (jsonLdCommand [] no_args)) =
     (''{'' @ LF @ ''  '' @ [CHR 0x22] @ ''a'' @ [CHR 0x22] @ '': 1'' @ LF @ ''}'' @ LF, None)
   \<and> parseAsync_catch sample_env (format sample_env (Some ''doc.jsonld'')
       (projr (jsonLdCommand [] (no_args\<lparr>arg_format := Some ''Turtle''\<rparr>)))) =
     \<lparr> stdout = ''Error: ERROR: Unknown format: Turtle'' @ LF, exitCode = 1 \<rparr>"
proof -
  let ?c1 = "projr (jsonLdCommand [] (no_args\<lparr>arg_format := Some ''N-Quads''\<rparr>))"
  let ?c2 = "projr (jsonLdCommand [] no_args)"
  let ?c3 = "projr (jsonLdCommand [] (no_args\<lparr>arg_format := Some ''Turtle''\<rparr>))"
  have s1: "selected_format ?c1 = ''N-Quads''"
    by (simp add: selected_format_def jsonLdCommand_def no_args_def boolify_option_def)
  have s2: "selected_format ?c2 = ''json''"
    by (simp add: selected_format_def jsonLdCommand_def no_args_def boolify_option_def)
  have s3: "selected_format ?c3 = ''Turtle''"
    by (simp add: selected_format_def jsonLdCommand_def no_args_def boolify_option_def)
  have l1: "toLowerCase ''N-Quads'' = ''n-quads''" by code_simp
  have l2: "toLowerCase ''json'' = ''json''" by code_simp
  have l3: "toLowerCase ''Turtle'' = ''turtle''" by code_simp
  have i1: "cmd_indent ?c1 = 2 \<and> cmd_newline ?c1"
    by (simp add: jsonLdCommand_def no_args_def boolify_option_def)
  have i2: "cmd_indent ?c2 = 2 \<and> cmd_newline ?c2"
    by (simp add: jsonLdCommand_def no_args_def boolify_option_def)
  have e: "frames sample_env = [] \<and> jsonld_toRDF sample_env = (\<lambda>input opts. ([], Inr sample_doc))
           \<and> lib_jsonldRequest sample_env = (\<lambda>url opts. Inr sample_doc)"
    by (simp add: sample_env_def)
  have o: "typeof sample_doc = ''object''" by (simp add: sample_doc_def)
  note a = format_by_selected_format [of ?c1 sample_env "Some ''doc.jsonld''"]
  note b = format_by_selected_format [of ?c2 sample_env "Some ''doc.jsonld''"]
  note c = format_by_selected_format [of ?c3 sample_env "Some ''doc.jsonld''"]
  have q: "toLowerCase (selected_format ?c1)
          \<in> {''nquads'', ''n-quads'', ''application/nquads'', ''application/n-quads''}"
    using s1 l1 by simp
  note a2 = a [THEN conjunct2, THEN conjunct1, THEN mp, OF q]
  have "format sample_env (Some ''doc.jsonld'') ?c1 =
     (the (JSON_stringify sample_doc (cmd_indent ?c1)) @ (if cmd_newline ?c1 then LF else []), None)"
    using a2 e by (auto simp: await_output_sample)
  then have r1: "format sample_env (Some ''doc.jsonld'') ?c1 =
     (''{'' @ LF @ ''  '' @ [CHR 0x22] @ ''a'' @ [CHR 0x22] @ '': 1'' @ LF @ ''}'' @ LF, None)"
    using i1 by (simp add: stringify_sample_2)
  have j: "toLowerCase (selected_format ?c2)
          \<in> {''json'', ''jsonld'', ''json-ld'', ''ld+json'', ''application/json'',
              ''application/ld+json''}"
    using s2 l2 by simp
  have "format sample_env (Some ''doc.jsonld'') ?c2 =
     (the (JSON_stringify sample_doc (cmd_indent ?c2)) @ (if cmd_newline ?c2 then LF else []), None)"
  proof (rule b [THEN conjunct2, THEN conjunct2, THEN conjunct1, THEN mp, OF j, THEN conjunct2,
        THEN spec, THEN mp])
    show "lib_jsonldRequest sample_env (input_or_stdin (Some ''doc.jsonld''))
            ((requestOptions sample_env ?c2 (input_or_stdin (Some ''doc.jsonld'')))
               \<lparr>req_allow := Some [''stdin'', ''file'', ''http'', ''https'']\<rparr>) = Inr sample_doc
          \<and> typeof sample_doc = ''object''"
      using e o by simp
  qed
  then have r2: "format sample_env (Some ''doc.jsonld'') ?c2 =
     (''{'' @ LF @ ''  '' @ [CHR 0x22] @ ''a'' @ [CHR 0x22] @ '': 1'' @ LF @ ''}'' @ LF, None)"
    using i2 by (simp add: stringify_sample_2)
  have u: "toLowerCase (selected_format ?c3)
          \<notin> {''nquads'', ''n-quads'', ''application/nquads'', ''application/n-quads'',
              ''json'', ''jsonld'', ''json-ld'', ''ld+json'', ''application/json'',
              ''application/ld+json''}"
    using s3 l3 by simp
  note c3 = c [THEN conjunct2, THEN conjunct2, THEN conjunct2, THEN mp, OF u, THEN conjunct2]
  have r3: "parseAsync_catch sample_env (format sample_env (Some ''doc.jsonld'') ?c3) =
     \<lparr> stdout = ''Error: ERROR: Unknown format: Turtle'' @ LF, exitCode = 1 \<rparr>"
  proof -
    have "parseAsync_catch sample_env (format sample_env (Some ''doc.jsonld'') ?c3) =
      \<lparr> stdout = ''Error: ERROR: Unknown format: '' @ ''Turtle'' @ [] @ LF, exitCode = 1 \<rparr>"
      using c3 e by (simp only: s3)
    then show ?thesis by simp
  qed
  from r1 r2 r3 show ?thesis by simp
qed



end
